theory Spec2Isabelle
  imports Main
begin

section \<open>JavaScript values used by the auth service\<close>

text \<open>
  Optional string fields (\<open>passwordHash?: string\<close>, a nullable column, a missing
  property) are \<open>string option\<close>. JavaScript's \<open>!x\<close> on such a value is true for
  \<open>undefined\<close>, \<open>null\<close> and the empty string; \<open>truthy\<close> is its negation.
\<close>

definition truthy :: "string option \<Rightarrow> bool" where
  "truthy x = (case x of None \<Rightarrow> False | Some s \<Rightarrow> s \<noteq> [])"

text \<open>\<open>x || null\<close> on an optional string.\<close>

definition or_null :: "string option \<Rightarrow> string option" where
  "or_null x = (if truthy x then x else None)"


section \<open>PKCE challenge store (routes/oauth.ts)\<close>

text \<open>
  \<open>pkceStore\<close> is an object used as a dictionary from key to
  \<open>{ challenge, verifier, expires }\<close>; \<open>expires\<close> and \<open>Date.now()\<close> are
  millisecond counts. The clock is an argument of the model.
\<close>

record pkce_entry =
  challenge :: string
  verifier :: string
  expires :: int

type_synonym pkce_store = "string \<rightharpoonup> pkce_entry"

text \<open>
  \<open>verifyPKCE(key, challenge)\<close>: returns \<open>null\<close> when the key is not stored, when
  \<open>stored.expires < Date.now()\<close>, or when the challenges differ; otherwise deletes the
  entry and returns its verifier. The result is paired with the store after the call.
\<close>

definition verifyPKCE :: "pkce_store \<Rightarrow> int \<Rightarrow> string \<Rightarrow> string \<Rightarrow> string option \<times> pkce_store" where
  "verifyPKCE pkceStore now key presented =
     (case pkceStore key of
        None \<Rightarrow> (None, pkceStore)
      | Some stored \<Rightarrow>
          if expires stored < now \<or> challenge stored \<noteq> presented then (None, pkceStore)
          else (Some (verifier stored), pkceStore(key := None)))"


section \<open>Errors and responses\<close>

text \<open>
  A thrown JavaScript error is kept with its \<open>name\<close>, its \<open>message\<close> and the classes
  on its prototype chain, so that both \<open>err.name === ...\<close> and
  \<open>err instanceof ...\<close> can be evaluated. The constructors below are the ones the
  service meets: \<open>Error\<close>, the two error classes of the jsonwebtoken package (whose
  \<open>TokenExpiredError\<close> inherits from \<open>JsonWebTokenError\<close>), and the errors raised
  by the database driver when an INSERT violates a key or a NOT NULL column of the
  \<open>users\<close> table.
\<close>

record js_error =
  err_name :: string
  err_message :: string
  err_classes :: "string list"

definition instanceof :: "js_error \<Rightarrow> string \<Rightarrow> bool" where
  "instanceof err cls = (cls \<in> set (err_classes err))"

definition new_Error :: "string \<Rightarrow> js_error" where
  "new_Error msg = \<lparr>err_name = ''Error'', err_message = msg, err_classes = [''Error'']\<rparr>"

definition new_JsonWebTokenError :: "string \<Rightarrow> js_error" where
  "new_JsonWebTokenError msg =
     \<lparr>err_name = ''JsonWebTokenError'', err_message = msg,
      err_classes = [''JsonWebTokenError'', ''Error'']\<rparr>"

definition new_TokenExpiredError :: "string \<Rightarrow> js_error" where
  "new_TokenExpiredError msg =
     \<lparr>err_name = ''TokenExpiredError'', err_message = msg,
      err_classes = [''TokenExpiredError'', ''JsonWebTokenError'', ''Error'']\<rparr>"

definition duplicate_key_error :: js_error where
  "duplicate_key_error =
     \<lparr>err_name = ''error'',
      err_message = ''duplicate key value violates unique constraint'',
      err_classes = [''DatabaseError'', ''Error'']\<rparr>"

definition not_null_error :: js_error where
  "not_null_error =
     \<lparr>err_name = ''error'',
      err_message = ''null value in column password_hash violates not-null constraint'',
      err_classes = [''DatabaseError'', ''Error'']\<rparr>"


section \<open>Session tokens (jsonwebtoken as the routes use it)\<close>

text \<open>
  The payload the routes sign is \<open>{ userId, email, role }\<close>; \<open>expiresIn: '24h'\<close> adds
  \<open>iat\<close> and \<open>exp\<close> in seconds. A token on the wire is either a string that is not a
  JWT at all or a payload together with the secret it was signed with; the signature
  verifies exactly when that secret is the verifier's. The clock is \<open>Date.now()\<close> in
  milliseconds.
\<close>

record jwt_claims =
  userId :: string
  email_claim :: string
  role_claim :: string
  iat :: int
  exp_claim :: int

datatype token = NotAJwt string | SignedJwt string jwt_claims

text \<open>\<open>process.env.JWT_SECRET || 'fallback-secret'\<close>\<close>

definition jwt_secret :: "string option \<Rightarrow> string" where
  "jwt_secret env = (case env of None \<Rightarrow> ''fallback-secret''
                     | Some s \<Rightarrow> if s = [] then ''fallback-secret'' else s)"

definition jwt_sign :: "string \<Rightarrow> int \<Rightarrow> string \<Rightarrow> string \<Rightarrow> string \<Rightarrow> token" where
  "jwt_sign secret now uid em rl =
     SignedJwt secret
       \<lparr>userId = uid, email_claim = em, role_claim = rl,
        iat = now div 1000, exp_claim = now div 1000 + 86400\<rparr>"

text \<open>
  \<open>jwt.verify\<close>: the signature is checked first, then the expiry
  (\<open>clockTimestamp >= payload.exp\<close> throws \<open>TokenExpiredError\<close>).
\<close>

definition jwt_verify :: "string \<Rightarrow> int \<Rightarrow> token \<Rightarrow> js_error + jwt_claims" where
  "jwt_verify secret now tok =
     (case tok of
        NotAJwt s \<Rightarrow> Inl (new_JsonWebTokenError ''jwt malformed'')
      | SignedJwt signed_with claims \<Rightarrow>
          if signed_with \<noteq> secret then Inl (new_JsonWebTokenError ''invalid signature'')
          else if now div 1000 \<ge> exp_claim claims then Inl (new_TokenExpiredError ''jwt expired'')
          else Inr claims)"

text \<open>
  \<open>!token\<close> for a token read from a request: true when the field is missing or is the
  empty string.
\<close>

definition token_given :: "token option \<Rightarrow> bool" where
  "token_given t = (case t of None \<Rightarrow> False | Some (NotAJwt s) \<Rightarrow> s \<noteq> []
                    | Some (SignedJwt k c) \<Rightarrow> True)"

text \<open>
  JSON bodies of the responses: \<open>{ error }\<close>, \<open>{ message }\<close>,
  \<open>{ message, token, user: { id, email, name, role } }\<close> and \<open>{ token }\<close>. A response is
  its status code and its body.
\<close>

datatype body =
    ErrorBody string
  | MessageBody string
  | AuthBody string token string string string string
  | TokenBody token

type_synonym response = "nat \<times> body"


section \<open>User records (models/User.ts)\<close>

text \<open>
  A row of the \<open>users\<close> table, with the columns of the schema after its migrations.
  Nullable columns are options; timestamps are millisecond counts; \<open>preferences\<close> is the
  stored JSON text. Every query of \<open>User\<close> returns \<open>result.rows[0]\<close>, the row object
  of the driver, whose keys are the column names.
\<close>

record user_row =
  id_user :: string
  email :: string
  password_hash :: "string option"
  name :: string
  role :: string
  oauth_provider :: "string option"
  oauth_id :: "string option"
  picture :: "string option"
  email_verified :: bool
  preferences :: string
  created_at :: int
  updated_at :: int
  last_login :: "int option"

text \<open>
  Reading a string-valued property of a row object. The keys of the object are the column
  names, so \<open>user.id\<close>, \<open>user.email\<close>, \<open>user.name\<close>, \<open>user.role\<close> and
  \<open>user.picture\<close> give the columns, while a name that is no column, such as
  \<open>user.passwordHash\<close> or \<open>user.oauthProvider\<close>, gives \<open>undefined\<close>.
\<close>

definition row_property :: "user_row \<Rightarrow> string \<Rightarrow> string option" where
  "row_property user key =
     (if key = ''id'' then Some (id_user user)
      else if key = ''email'' then Some (email user)
      else if key = ''password_hash'' then password_hash user
      else if key = ''name'' then Some (name user)
      else if key = ''role'' then Some (role user)
      else if key = ''oauth_provider'' then oauth_provider user
      else if key = ''oauth_id'' then oauth_id user
      else if key = ''picture'' then picture user
      else if key = ''preferences'' then Some (preferences user)
      else None)"

text \<open>The argument of \<open>User.create\<close>: \<open>UserData\<close> without id and timestamps.\<close>

record new_user =
  new_email :: string
  new_passwordHash :: "string option"
  new_name :: string
  new_role :: string
  new_oauthProvider :: "string option"
  new_oauthId :: "string option"
  new_picture :: "string option"
  new_emailVerified :: "bool option"
  new_preferences :: "string option"

text \<open>
  The table is the list of its rows in insertion order. \<open>User.create\<close> draws the id
  (\<open>uuidv4()\<close>) and the time, which are arguments here, and inserts the row.
  \<open>pool.query\<close> throws when the INSERT is rejected by the table: \<open>password_hash\<close> is
  declared NOT NULL and no migration relaxes it, so the NULL that
  \<open>userData.passwordHash || null\<close> passes for an absent or empty hash is refused; \<open>id\<close>
  is the primary key and \<open>email\<close> is UNIQUE. \<open>RETURNING *\<close> gives the row back. Both
  \<open>new Date()\<close> calls of \<open>create\<close> read the same clock value \<open>now\<close>.
\<close>

definition create :: "user_row list \<Rightarrow> string \<Rightarrow> int \<Rightarrow> new_user \<Rightarrow> js_error + (user_row \<times> user_row list)" where
  "create users newId now userData =
     (let row = \<lparr>id_user = newId,
                 email = new_email userData,
                 password_hash = or_null (new_passwordHash userData),
                 name = new_name userData,
                 role = new_role userData,
                 oauth_provider = or_null (new_oauthProvider userData),
                 oauth_id = or_null (new_oauthId userData),
                 picture = or_null (new_picture userData),
                 email_verified = (case new_emailVerified userData of None \<Rightarrow> False | Some b \<Rightarrow> b),
                 preferences = (case new_preferences userData of None \<Rightarrow> ''{}'' | Some p \<Rightarrow> p),
                 created_at = now,
                 updated_at = now,
                 last_login = None\<rparr>
      in if password_hash row = None then Inl not_null_error
         else if newId \<in> set (map id_user users) \<or> new_email userData \<in> set (map email users)
         then Inl duplicate_key_error
         else Inr (row, users @ [row]))"

definition findById :: "user_row list \<Rightarrow> string \<Rightarrow> user_row option" where
  "findById users uid = find (\<lambda>u. id_user u = uid) users"

definition findByEmail :: "user_row list \<Rightarrow> string \<Rightarrow> user_row option" where
  "findByEmail users em = find (\<lambda>u. email u = em) users"

definition updateLastLogin :: "user_row list \<Rightarrow> string \<Rightarrow> int \<Rightarrow> user_row list" where
  "updateLastLogin users uid now =
     map (\<lambda>u. if id_user u = uid then u\<lparr>last_login := Some now\<rparr> else u) users"

definition updatePreferences :: "user_row list \<Rightarrow> string \<Rightarrow> string \<Rightarrow> int \<Rightarrow> user_row list" where
  "updatePreferences users uid prefs now =
     map (\<lambda>u. if id_user u = uid then u\<lparr>preferences := prefs, updated_at := now\<rparr> else u) users"

text \<open>
  \<open>createOAuthUser\<close>: role defaults to \<open>'user'\<close> (\<open>userData.role || 'user'\<close>), the email
  counts as verified, no password hash.
\<close>

definition createOAuthUser :: "user_row list \<Rightarrow> string \<Rightarrow> int \<Rightarrow> string \<Rightarrow> string \<Rightarrow> string \<Rightarrow> string \<Rightarrow> string option \<Rightarrow> string option \<Rightarrow> js_error + (user_row \<times> user_row list)" where
  "createOAuthUser users newId now em nm provider oid pic rl =
     create users newId now
       \<lparr>new_email = em,
        new_passwordHash = None,
        new_name = nm,
        new_role = (case rl of None \<Rightarrow> ''user'' | Some r \<Rightarrow> if r = [] then ''user'' else r),
        new_oauthProvider = Some provider,
        new_oauthId = Some oid,
        new_picture = pic,
        new_emailVerified = Some True,
        new_preferences = None\<rparr>"

text \<open>
  \<open>updateOAuthInfo\<close>: \<open>SET oauth_provider = $1, oauth_id = $2,
  picture = COALESCE($3, picture), updated_at = CURRENT_TIMESTAMP WHERE id = $4\<close>, with
  \<open>$3 = additionalData?.picture\<close>.
\<close>

definition updateOAuthInfo :: "user_row list \<Rightarrow> string \<Rightarrow> string option \<Rightarrow> string option \<Rightarrow> string option \<Rightarrow> int \<Rightarrow> user_row list" where
  "updateOAuthInfo users uid provider oid pic now =
     map (\<lambda>u. if id_user u = uid
               then u\<lparr>oauth_provider := provider,
                      oauth_id := oid,
                      picture := (case pic of None \<Rightarrow> picture u | Some p \<Rightarrow> Some p),
                      updated_at := now\<rparr>
               else u) users"

text \<open>\<open>WHERE oauth_provider = $1 AND oauth_id = $2\<close>: a NULL column never matches.\<close>

definition findByOAuthId :: "user_row list \<Rightarrow> string \<Rightarrow> string \<Rightarrow> user_row option" where
  "findByOAuthId users provider oid =
     find (\<lambda>u. oauth_provider u = Some provider \<and> oauth_id u = Some oid) users"

definition linkOAuthAccount :: "user_row list \<Rightarrow> string \<Rightarrow> string \<Rightarrow> string \<Rightarrow> string option \<Rightarrow> int \<Rightarrow> js_error + user_row list" where
  "linkOAuthAccount users uid provider oid pic now =
     (case findByOAuthId users provider oid of
        None \<Rightarrow> Inr (updateOAuthInfo users uid (Some provider) (Some oid) pic now)
      | Some existingUser \<Rightarrow>
          if id_user existingUser \<noteq> uid
          then Inl (new_Error ''OAuth account already linked to another user'')
          else Inr (updateOAuthInfo users uid (Some provider) (Some oid) pic now))"


section \<open>OAuth strategies (config/oauth.ts)\<close>

text \<open>
  The three Passport strategies have the same verify callback up to the provider's name
  and GitHub's fallback \<open>profile.displayName || profile.username\<close>. Of the provider's
  profile the callback reads \<open>id\<close>, \<open>displayName\<close>, \<open>username\<close>, the first entry of
  \<open>emails\<close> and the first entry of \<open>photos\<close>.
\<close>

datatype provider = Google | GitHub | Microsoft

fun provider_key :: "provider \<Rightarrow> string" where
  "provider_key Google = ''google''"
| "provider_key GitHub = ''github''"
| "provider_key Microsoft = ''microsoft''"

fun provider_label :: "provider \<Rightarrow> string" where
  "provider_label Google = ''Google''"
| "provider_label GitHub = ''GitHub''"
| "provider_label Microsoft = ''Microsoft''"

record profile =
  profile_id :: string
  displayName :: string
  username :: string
  emails :: "string list"
  photos :: "string list"

text \<open>\<open>xs?.[0]?.value\<close>\<close>

definition first_value :: "string list \<Rightarrow> string option" where
  "first_value xs = (case xs of [] \<Rightarrow> None | x # _ \<Rightarrow> Some x)"

definition profile_name :: "provider \<Rightarrow> profile \<Rightarrow> string" where
  "profile_name prov prof =
     (case prov of
        GitHub \<Rightarrow> if displayName prof \<noteq> [] then displayName prof else username prof
      | _ \<Rightarrow> displayName prof)"

text \<open>
  The verify callback. It answers \<open>done(error, false)\<close> or \<open>done(null, user)\<close>; the
  user handed to \<open>done\<close> in the linking branch is the object read before the update.
  The test \<open>!user.oauthProvider\<close> reads a property of the row object. The second
  component is the table after the call.
\<close>

definition verify_callback :: "provider \<Rightarrow> user_row list \<Rightarrow> string \<Rightarrow> int \<Rightarrow> profile \<Rightarrow> (js_error + user_row) \<times> user_row list" where
  "verify_callback prov users newId now prof =
     (let em = first_value (emails prof);
          nm = profile_name prov prof;
          pic = first_value (photos prof)
      in case (if truthy em then em else None) of
           None \<Rightarrow> (Inl (new_Error (''No email provided by '' @ provider_label prov)), users)
         | Some e \<Rightarrow>
             (case findByEmail users e of
                Some user \<Rightarrow>
                  if \<not> truthy (row_property user ''oauthProvider'')
                  then (Inr user,
                        updateOAuthInfo users (id_user user) (Some (provider_key prov))
                          (Some (profile_id prof)) (if truthy pic then pic else None) now)
                  else (Inr user, users)
              | None \<Rightarrow>
                  (case createOAuthUser users newId now e nm (provider_key prov)
                          (profile_id prof) pic None of
                     Inl err \<Rightarrow> (Inl err, users)
                   | Inr (row, users') \<Rightarrow> (Inr row, users'))))"


section \<open>Linking routes (routes/oauth.ts)\<close>

definition known_provider :: "string \<Rightarrow> bool" where
  "known_provider p = (p \<in> set [''google'', ''github'', ''microsoft''])"

definition link_route :: "user_row list \<Rightarrow> int \<Rightarrow> string \<Rightarrow> string \<Rightarrow> string \<Rightarrow> response \<times> user_row list" where
  "link_route users now provider uid oid =
     (if \<not> known_provider provider then ((400, ErrorBody ''Invalid OAuth provider''), users)
      else case findById users uid of
        None \<Rightarrow> ((404, ErrorBody ''User not found''), users)
      | Some user \<Rightarrow>
          (case (case findByOAuthId users provider oid of
                   None \<Rightarrow> False | Some existingUser \<Rightarrow> id_user existingUser \<noteq> uid) of
             True \<Rightarrow> ((409, ErrorBody ''OAuth account already linked to another user''), users)
           | False \<Rightarrow>
               (case linkOAuthAccount users uid provider oid None now of
                  Inl err \<Rightarrow> ((500, ErrorBody ''Internal server error''), users)
                | Inr users' \<Rightarrow> ((200, MessageBody ''OAuth account linked successfully''), users'))))"

definition unlink_route :: "user_row list \<Rightarrow> int \<Rightarrow> string \<Rightarrow> string \<Rightarrow> response \<times> user_row list" where
  "unlink_route users now provider uid =
     (if \<not> known_provider provider then ((400, ErrorBody ''Invalid OAuth provider''), users)
      else case findById users uid of
        None \<Rightarrow> ((404, ErrorBody ''User not found''), users)
      | Some user \<Rightarrow>
          ((200, MessageBody ''OAuth account unlinked successfully''),
           updateOAuthInfo users uid None None None now))"


section \<open>Password routes and token routes (routes/auth.ts, middleware/auth.ts)\<close>

text \<open>
  \<open>bcrypt.hash\<close> and \<open>bcrypt.compare\<close> are arguments of the model; the request schemas
  checked by \<open>validateRequest\<close> run before the handlers and are not part of them.
  \<open>login\<close> tests \<open>!user.passwordHash\<close> and compares against \<open>user.passwordHash\<close>,
  both read off the row object.
\<close>

definition register :: "(string \<Rightarrow> string) \<Rightarrow> string option \<Rightarrow> user_row list \<Rightarrow> string \<Rightarrow> int \<Rightarrow> string \<Rightarrow> string \<Rightarrow> string \<Rightarrow> string option \<Rightarrow> response \<times> user_row list" where
  "register bcrypt_hash env users newId now em password nm rl =
     (case findByEmail users em of
        Some existingUser \<Rightarrow> ((400, ErrorBody ''User already exists''), users)
      | None \<Rightarrow>
          (case create users newId now
                  \<lparr>new_email = em,
                   new_passwordHash = Some (bcrypt_hash password),
                   new_name = nm,
                   new_role = (case rl of None \<Rightarrow> ''user'' | Some r \<Rightarrow> r),
                   new_oauthProvider = None,
                   new_oauthId = None,
                   new_picture = None,
                   new_emailVerified = None,
                   new_preferences = None\<rparr> of
             Inl err \<Rightarrow> ((500, ErrorBody ''Internal server error''), users)
           | Inr (user, users') \<Rightarrow>
               ((201, AuthBody ''User created successfully''
                        (jwt_sign (jwt_secret env) now (id_user user) (email user) (role user))
                        (id_user user) (email user) (name user) (role user)),
                users')))"

definition login :: "(string \<Rightarrow> string \<Rightarrow> bool) \<Rightarrow> string option \<Rightarrow> user_row list \<Rightarrow> int \<Rightarrow> string \<Rightarrow> string \<Rightarrow> response \<times> user_row list" where
  "login bcrypt_compare env users now em password =
     (case findByEmail users em of
        None \<Rightarrow> ((401, ErrorBody ''Invalid credentials''), users)
      | Some user \<Rightarrow>
          (case (if truthy (row_property user ''passwordHash'')
                 then row_property user ''passwordHash'' else None) of
             None \<Rightarrow>
               ((401, ErrorBody ''This account uses OAuth login. Please use Google, GitHub, or Microsoft to sign in.''),
                users)
           | Some h \<Rightarrow>
               if \<not> bcrypt_compare password h
               then ((401, ErrorBody ''Invalid credentials''), users)
               else ((200, AuthBody ''Login successful''
                             (jwt_sign (jwt_secret env) now (id_user user) (email user) (role user))
                             (id_user user) (email user) (name user) (role user)),
                     updateLastLogin users (id_user user) now)))"

definition refresh :: "string option \<Rightarrow> user_row list \<Rightarrow> int \<Rightarrow> token option \<Rightarrow> response" where
  "refresh env users now t =
     (case (if token_given t then t else None) of
        None \<Rightarrow> (401, ErrorBody ''Token required'')
      | Some tok \<Rightarrow>
          (case jwt_verify (jwt_secret env) now tok of
             Inl err \<Rightarrow> (401, ErrorBody ''Invalid token'')
           | Inr decoded \<Rightarrow>
               (case findById users (userId decoded) of
                  None \<Rightarrow> (401, ErrorBody ''Invalid token'')
                | Some user \<Rightarrow>
                    (200, TokenBody (jwt_sign (jwt_secret env) now
                                       (id_user user) (email user) (role user))))))"

text \<open>
  \<open>authenticateToken\<close>, from the token taken out of the Authorization header
  (\<open>authHeader && authHeader.split(' ')[1]\<close>): it either answers with a response or
  sets \<open>req.user\<close> and calls \<open>next()\<close>. The catch block tests
  \<open>instanceof jwt.JsonWebTokenError\<close> first and \<open>instanceof jwt.TokenExpiredError\<close>
  second.
\<close>

definition authenticateToken :: "string option \<Rightarrow> user_row list \<Rightarrow> int \<Rightarrow> token option \<Rightarrow> response + user_row" where
  "authenticateToken env users now t =
     (case (if token_given t then t else None) of
        None \<Rightarrow> Inl (401, ErrorBody ''Access token required'')
      | Some tok \<Rightarrow>
          (case jwt_verify (jwt_secret env) now tok of
             Inl err \<Rightarrow>
               if instanceof err ''JsonWebTokenError'' then Inl (401, ErrorBody ''Invalid token'')
               else if instanceof err ''TokenExpiredError'' then Inl (401, ErrorBody ''Token expired'')
               else Inl (500, ErrorBody ''Internal server error'')
           | Inr decoded \<Rightarrow>
               (case findById users (userId decoded) of
                  None \<Rightarrow> Inl (401, ErrorBody ''Invalid token'')
                | Some user \<Rightarrow> Inr user)))"

text \<open>\<open>PUT /profile\<close>: behind \<open>authenticateToken\<close>; only \<open>preferences\<close> is stored.\<close>

definition put_profile :: "string option \<Rightarrow> user_row list \<Rightarrow> int \<Rightarrow> token option \<Rightarrow> string option \<Rightarrow> response \<times> user_row list" where
  "put_profile env users now t prefs =
     (case authenticateToken env users now t of
        Inl resp \<Rightarrow> (resp, users)
      | Inr user \<Rightarrow>
          ((200, MessageBody ''Profile updated successfully''),
           (case prefs of None \<Rightarrow> users
            | Some p \<Rightarrow> updatePreferences users (id_user user) p now)))"

text \<open>The error-handling middleware (middleware/errorHandler) dispatches on \<open>err.name\<close>.\<close>

definition errorHandler :: "js_error \<Rightarrow> response" where
  "errorHandler err =
     (if err_name err = ''ValidationError'' then (400, ErrorBody (err_message err))
      else if err_name err = ''JsonWebTokenError'' then (401, ErrorBody ''Invalid token'')
      else if err_name err = ''TokenExpiredError'' then (401, ErrorBody ''Token expired'')
      else (500, ErrorBody ''Internal server error''))"


section \<open>Properties of the user table and the requests that change it\<close>

text \<open>
  The external identity of a row: the pair \<open>(oauth_provider, oauth_id)\<close> when both
  columns are non-NULL. The identities are unique when no pair occurs in two rows.
\<close>

definition oauth_identity :: "user_row \<Rightarrow> (string \<times> string) option" where
  "oauth_identity u =
     (case oauth_provider u of None \<Rightarrow> None
      | Some p \<Rightarrow> (case oauth_id u of None \<Rightarrow> None | Some i \<Rightarrow> Some (p, i)))"

definition oauth_identities :: "user_row list \<Rightarrow> (string \<times> string) list" where
  "oauth_identities users = List.map_filter oauth_identity users"

definition oauth_unique :: "user_row list \<Rightarrow> bool" where
  "oauth_unique users = distinct (oauth_identities users)"



text \<open>Every row carries a password hash that is neither NULL nor empty.\<close>

definition every_row_has_hash :: "user_row list \<Rightarrow> bool" where
  "every_row_has_hash users = list_all (\<lambda>u. truthy (password_hash u)) users"

text \<open>
  The requests of the service that write to the table, and the table after serving one:
  \<open>POST /register\<close>, \<open>POST /login\<close>, a provider callback, \<open>POST /link/:provider\<close>,
  \<open>POST /unlink/:provider\<close> and \<open>PUT /profile\<close>.
\<close>

datatype request =
    Register string string string "string option"
  | Login string string
  | OAuthCallback provider profile
  | Link string string string
  | Unlink string string
  | PutProfile "token option" "string option"

definition serve :: "(string \<Rightarrow> string) \<Rightarrow> (string \<Rightarrow> string \<Rightarrow> bool) \<Rightarrow> string option \<Rightarrow> user_row list \<Rightarrow> string \<Rightarrow> int \<Rightarrow> request \<Rightarrow> user_row list" where
  "serve bcrypt_hash bcrypt_compare env users newId now req =
     (case req of
        Register em password nm rl \<Rightarrow> snd (register bcrypt_hash env users newId now em password nm rl)
      | Login em password \<Rightarrow> snd (login bcrypt_compare env users now em password)
      | OAuthCallback prov prof \<Rightarrow> snd (verify_callback prov users newId now prof)
      | Link p uid oid \<Rightarrow> snd (link_route users now p uid oid)
      | Unlink p uid \<Rightarrow> snd (unlink_route users now p uid)
      | PutProfile t prefs \<Rightarrow> snd (put_profile env users now t prefs))"

text \<open>
  The table after a sequence of requests, each with the id and the clock value it draws.
\<close>

fun run :: "(string \<Rightarrow> string) \<Rightarrow> (string \<Rightarrow> string \<Rightarrow> bool) \<Rightarrow> string option \<Rightarrow> user_row list \<Rightarrow> (string \<times> int \<times> request) list \<Rightarrow> user_row list" where
  "run bcrypt_hash bcrypt_compare env users [] = users"
| "run bcrypt_hash bcrypt_compare env users ((newId, now, req) # rest) =
     run bcrypt_hash bcrypt_compare env
       (serve bcrypt_hash bcrypt_compare env users newId now req) rest"


section \<open>Example data\<close>

text \<open>A stand-in for bcrypt on which the examples can be computed.\<close>

definition demo_hash :: "string \<Rightarrow> string" where
  "demo_hash password = ''bcrypt:'' @ password"

definition demo_compare :: "string \<Rightarrow> string \<Rightarrow> bool" where
  "demo_compare password h = (h = demo_hash password)"

text \<open>
  A Google account \<open>g-1\<close> reporting Alice's address, and the same Google account
  reporting another address later.
\<close>

definition alice_profile :: profile where
  "alice_profile = \<lparr>profile_id = ''g-1'', displayName = ''Alice'', username = [],
      emails = [''alice@example.com''], photos = []\<rparr>"

definition moved_profile :: profile where
  "moved_profile = \<lparr>profile_id = ''g-1'', displayName = ''Alice'', username = [],
      emails = [''bob@example.com''], photos = []\<rparr>"

text \<open>
  A row without a password hash, as \<open>createOAuthUser\<close> would write it. It serves as
  the content of a table where the content does not matter.
\<close>

definition alice_oauth :: user_row where
  "alice_oauth = \<lparr>id_user = ''u1'', email = ''alice@example.com'', password_hash = None,
      name = ''Alice'', role = ''user'', oauth_provider = Some ''google'', oauth_id = Some ''g-1'',
      picture = None, email_verified = True, preferences = ''{}'', created_at = 100,
      updated_at = 100, last_login = None\<rparr>"

text \<open>
  Alice and Bob registered with passwords (\<open>registered_accounts\<close>); Alice then logged
  in with Google account \<open>g-1\<close>, which linked it to her row (\<open>two_accounts\<close>).
\<close>

definition alice_registered :: user_row where
  "alice_registered =
     \<lparr>id_user = ''u1'', email = ''alice@example.com'', password_hash = Some ''bcrypt:pw123'',
      name = ''Alice'', role = ''user'', oauth_provider = None, oauth_id = None,
      picture = None, email_verified = False, preferences = ''{}'', created_at = 100,
      updated_at = 100, last_login = None\<rparr>"

definition alice_linked :: user_row where
  "alice_linked =
     \<lparr>id_user = ''u1'', email = ''alice@example.com'', password_hash = Some ''bcrypt:pw123'',
      name = ''Alice'', role = ''user'', oauth_provider = Some ''google'', oauth_id = Some ''g-1'',
      picture = None, email_verified = False, preferences = ''{}'', created_at = 100,
      updated_at = 300, last_login = None\<rparr>"

definition bob_registered :: user_row where
  "bob_registered =
     \<lparr>id_user = ''u2'', email = ''bob@example.com'', password_hash = Some ''bcrypt:hunter2'',
      name = ''Bob'', role = ''user'', oauth_provider = None, oauth_id = None,
      picture = None, email_verified = False, preferences = ''{}'', created_at = 200,
      updated_at = 200, last_login = None\<rparr>"

definition registered_accounts :: "user_row list" where
  "registered_accounts = [alice_registered, bob_registered]"

definition two_accounts :: "user_row list" where
  "two_accounts =
     [\<lparr>id_user = ''u1'', email = ''alice@example.com'', password_hash = Some ''bcrypt:pw123'',
       name = ''Alice'', role = ''user'', oauth_provider = Some ''google'', oauth_id = Some ''g-1'',
       picture = None, email_verified = False, preferences = ''{}'', created_at = 100,
       updated_at = 300, last_login = None\<rparr>,
      \<lparr>id_user = ''u2'', email = ''bob@example.com'', password_hash = Some ''bcrypt:hunter2'',
       name = ''Bob'', role = ''user'', oauth_provider = None, oauth_id = None,
       picture = None, email_verified = False, preferences = ''{}'', created_at = 200,
       updated_at = 200, last_login = None\<rparr>]"

text \<open>The requests that build \<open>two_accounts\<close> from the empty table.\<close>

definition two_accounts_steps :: "(string \<times> int \<times> request) list" where
  "two_accounts_steps =
     [(''u1'', 100, Register ''alice@example.com'' ''pw123'' ''Alice'' None),
      (''u2'', 200, Register ''bob@example.com'' ''hunter2'' ''Bob'' None),
      (''u3'', 300, OAuthCallback Google alice_profile)]"

text \<open>
  Carol registered with a password, logged in with Google (which stored a picture) and
  unlinked again; her Google profile now carries another picture.
\<close>

definition carol :: user_row where
  "carol = \<lparr>id_user = ''u7'', email = ''carol@example.com'', password_hash = Some ''bcrypt:pw123'',
      name = ''Carol'', role = ''user'', oauth_provider = None, oauth_id = None,
      picture = Some ''old.png'', email_verified = False, preferences = ''{}'', created_at = 100,
      updated_at = 250, last_login = None\<rparr>"

definition carol_profile :: profile where
  "carol_profile = \<lparr>profile_id = ''g-7'', displayName = ''Carol'', username = [],
      emails = [''carol@example.com''], photos = [''new.png'']\<rparr>"

text \<open>
  Dave's row says \<open>admin\<close>; the token he holds was signed with the service's secret
  when the payload said \<open>user\<close>.
\<close>

definition dave :: user_row where
  "dave = \<lparr>id_user = ''u9'', email = ''dave@example.com'', password_hash = Some ''bcrypt:pw123'',
      name = ''Dave'', role = ''admin'', oauth_provider = None, oauth_id = None,
      picture = None, email_verified = False, preferences = ''{}'', created_at = 100,
      updated_at = 100, last_login = None\<rparr>"

definition dave_old_token :: token where
  "dave_old_token = SignedJwt ''fallback-secret''
      \<lparr>userId = ''u9'', email_claim = ''dave@example.com'', role_claim = ''user'',
       iat = 100, exp_claim = 86500\<rparr>"


section \<open>Unfolding the model on concrete inputs\<close>

lemmas demo_defs = alice_profile_def moved_profile_def alice_oauth_def alice_registered_def
  alice_linked_def bob_registered_def registered_accounts_def two_accounts_def
  two_accounts_steps_def carol_def carol_profile_def dave_def dave_old_token_def
  demo_hash_def demo_compare_def

lemmas run_defs = verify_callback_def first_value_def truthy_def or_null_def profile_name_def
  findByEmail_def findById_def findByOAuthId_def createOAuthUser_def create_def
  updateOAuthInfo_def updateLastLogin_def updatePreferences_def linkOAuthAccount_def
  link_route_def unlink_route_def known_provider_def register_def login_def refresh_def
  authenticateToken_def put_profile_def jwt_sign_def jwt_verify_def jwt_secret_def
  token_given_def instanceof_def new_Error_def new_JsonWebTokenError_def
  new_TokenExpiredError_def duplicate_key_error_def not_null_error_def errorHandler_def
  row_property_def Let_def


section \<open>PKCE verification\<close>

lemma verifyPKCE_absent:
  "pkceStore key = None \<Longrightarrow> verifyPKCE pkceStore now key presented = (None, pkceStore)"
  by (simp add: verifyPKCE_def)

lemma verifyPKCE_present:
  "pkceStore key = Some stored \<Longrightarrow>
   verifyPKCE pkceStore now key presented =
     (if expires stored < now \<or> challenge stored \<noteq> presented then (None, pkceStore)
      else (Some (verifier stored), pkceStore(key := None)))"
  by (simp add: verifyPKCE_def)

lemma verifyPKCE_result_cases:
  "verifyPKCE pkceStore now key presented = (None, pkceStore) \<or>
   (\<exists>stored. pkceStore key = Some stored \<and> \<not> expires stored < now \<and>
      challenge stored = presented \<and>
      verifyPKCE pkceStore now key presented = (Some (verifier stored), pkceStore(key := None)))"
  by (cases "pkceStore key") (auto simp: verifyPKCE_def)

text \<open>
  Claim C4, as stated, at the boundary: an entry whose \<open>expires\<close> equals the current
  time is not in the future, yet the verifier is returned, because the code rejects only
  \<open>expires < now\<close>.
\<close>

theorem verifyPKCE_expiry_boundary_counterexample:
  "fst (verifyPKCE [''k1'' \<mapsto> \<lparr>challenge = ''c1'', verifier = ''v1'', expires = 1000\<rparr>]
          1000 ''k1'' ''c1'') = Some ''v1''
   \<and> \<not> (1000 < expires \<lparr>challenge = ''c1'', verifier = ''v1'', expires = 1000\<rparr>)"
  by (simp add: verifyPKCE_def)

text \<open>
  Claim C4 (amended): \<open>verifyPKCE\<close> returns the stored verifier if and only if the key is
  in the store, its expiry is not in the past (\<open>expires \<ge> now\<close>) and the presented
  challenge equals the stored one; otherwise it returns \<open>null\<close>. On success the entry is
  deleted, so any later call on that key returns \<open>null\<close>; and an entry with
  \<open>expires < now\<close> yields \<open>null\<close> even for the correct challenge.
\<close>

theorem verifyPKCE_iff:
  "(fst (verifyPKCE pkceStore now key presented) = Some v \<longleftrightarrow>
      (\<exists>stored. pkceStore key = Some stored \<and> now \<le> expires stored \<and>
         challenge stored = presented \<and> verifier stored = v))
   \<and> (fst (verifyPKCE pkceStore now key presented) = Some v \<longrightarrow>
        snd (verifyPKCE pkceStore now key presented) = pkceStore(key := None) \<and>
        (\<forall>later again.
           fst (verifyPKCE (snd (verifyPKCE pkceStore now key presented)) later key again) = None))
   \<and> (\<forall>stored. pkceStore key = Some stored \<and> expires stored < now \<longrightarrow>
        fst (verifyPKCE pkceStore now key (challenge stored)) = None)"
proof (intro conjI)
  show "fst (verifyPKCE pkceStore now key presented) = Some v \<longleftrightarrow>
      (\<exists>stored. pkceStore key = Some stored \<and> now \<le> expires stored \<and>
         challenge stored = presented \<and> verifier stored = v)"
    by (cases "pkceStore key") (auto simp: verifyPKCE_def)
next
  show "fst (verifyPKCE pkceStore now key presented) = Some v \<longrightarrow>
        snd (verifyPKCE pkceStore now key presented) = pkceStore(key := None) \<and>
        (\<forall>later again.
           fst (verifyPKCE (snd (verifyPKCE pkceStore now key presented)) later key again) = None)"
  proof
    assume ok: "fst (verifyPKCE pkceStore now key presented) = Some v"
    from verifyPKCE_result_cases [of pkceStore now key presented] ok
    have del: "snd (verifyPKCE pkceStore now key presented) = pkceStore(key := None)"
      by auto
    have "\<And>later again. fst (verifyPKCE (pkceStore(key := None)) later key again) = None"
      by (simp add: verifyPKCE_absent)
    with del show "snd (verifyPKCE pkceStore now key presented) = pkceStore(key := None) \<and>
        (\<forall>later again.
           fst (verifyPKCE (snd (verifyPKCE pkceStore now key presented)) later key again) = None)"
      by simp
  qed
next
  show "\<forall>stored. pkceStore key = Some stored \<and> expires stored < now \<longrightarrow>
        fst (verifyPKCE pkceStore now key (challenge stored)) = None"
    by (simp add: verifyPKCE_def)
qed

theorem verifyPKCE_iff_witness:
  "fst (verifyPKCE [''k1'' \<mapsto> \<lparr>challenge = ''c1'', verifier = ''v1'', expires = 1000\<rparr>]
          400 ''k1'' ''c1'') = Some ''v1''
   \<and> snd (verifyPKCE [''k1'' \<mapsto> \<lparr>challenge = ''c1'', verifier = ''v1'', expires = 1000\<rparr>]
          400 ''k1'' ''c1'') = Map.empty
   \<and> fst (verifyPKCE (snd (verifyPKCE
          [''k1'' \<mapsto> \<lparr>challenge = ''c1'', verifier = ''v1'', expires = 1000\<rparr>]
          400 ''k1'' ''c1'')) 500 ''k1'' ''c1'') = None
   \<and> fst (verifyPKCE [''k1'' \<mapsto> \<lparr>challenge = ''c1'', verifier = ''v1'', expires = 1000\<rparr>]
          1001 ''k1'' ''c1'') = None"
proof -
  let ?e = "\<lparr>challenge = ''c1'', verifier = ''v1'', expires = 1000\<rparr>"
  let ?st = "[''k1'' \<mapsto> ?e]"
  have present: "?st ''k1'' = Some ?e \<and> (400::int) \<le> expires ?e \<and>
      challenge ?e = ''c1'' \<and> verifier ?e = ''v1''"
    by simp
  have old: "?st ''k1'' = Some ?e \<and> expires ?e < 1001"
    by simp
  from verifyPKCE_iff [of ?st 400 "''k1''" "''c1''" "''v1''"] present
  have a: "fst (verifyPKCE ?st 400 ''k1'' ''c1'') = Some ''v1''"
    and b: "snd (verifyPKCE ?st 400 ''k1'' ''c1'') = ?st(''k1'' := None)"
    and c: "fst (verifyPKCE (snd (verifyPKCE ?st 400 ''k1'' ''c1'')) 500 ''k1'' ''c1'') = None"
    by blast+
  from verifyPKCE_iff [of ?st 1001 "''k1''" "''c1''" "''v1''"] old
  have d: "fst (verifyPKCE ?st 1001 ''k1'' ''c1'') = None"
    by (metis pkce_entry.select_convs(1))
  from a b c d show ?thesis by simp
qed

text \<open>
  Claim C10: a verification that fails on a live entry because the presented challenge
  does not match returns \<open>null\<close> and leaves the store as it was, so a later call with
  the stored challenge, made while the entry is still live, returns the verifier and
  deletes the entry; and whenever \<open>verifyPKCE\<close> returns \<open>null\<close> the store is unchanged
  (only a successful verification deletes).
\<close>

theorem verifyPKCE_failure_keeps_entry:
  assumes "pkceStore key = Some stored"
    and "\<not> expires stored < now"
    and "presented \<noteq> challenge stored"
  shows "verifyPKCE pkceStore now key presented = (None, pkceStore)
     \<and> (\<not> expires stored < later \<longrightarrow>
          verifyPKCE (snd (verifyPKCE pkceStore now key presented)) later key (challenge stored)
            = (Some (verifier stored), pkceStore(key := None)))
     \<and> (\<forall>st t k c. fst (verifyPKCE st t k c) = None \<longrightarrow> snd (verifyPKCE st t k c) = st)"
proof (intro conjI)
  from assms show first: "verifyPKCE pkceStore now key presented = (None, pkceStore)"
    by (auto simp: verifyPKCE_present)
  show "\<not> expires stored < later \<longrightarrow>
          verifyPKCE (snd (verifyPKCE pkceStore now key presented)) later key (challenge stored)
            = (Some (verifier stored), pkceStore(key := None))"
    using assms(1) by (simp add: first verifyPKCE_present)
  show "\<forall>st t k c. fst (verifyPKCE st t k c) = None \<longrightarrow> snd (verifyPKCE st t k c) = st"
  proof (intro allI impI)
    fix st :: pkce_store and t k c
    assume "fst (verifyPKCE st t k c) = None"
    with verifyPKCE_result_cases [of st t k c] show "snd (verifyPKCE st t k c) = st"
      by auto
  qed
qed

theorem verifyPKCE_failure_keeps_entry_witness:
  "verifyPKCE [''k1'' \<mapsto> \<lparr>challenge = ''c1'', verifier = ''v1'', expires = 1000\<rparr>]
      400 ''k1'' ''wrong''
     = (None, [''k1'' \<mapsto> \<lparr>challenge = ''c1'', verifier = ''v1'', expires = 1000\<rparr>])
   \<and> verifyPKCE (snd (verifyPKCE
        [''k1'' \<mapsto> \<lparr>challenge = ''c1'', verifier = ''v1'', expires = 1000\<rparr>]
        400 ''k1'' ''wrong'')) 900 ''k1'' ''c1''
     = (Some ''v1'', Map.empty)"
proof -
  let ?e = "\<lparr>challenge = ''c1'', verifier = ''v1'', expires = 1000\<rparr>"
  let ?st = "[''k1'' \<mapsto> ?e]"
  have h1: "?st ''k1'' = Some ?e" by simp
  have h2: "\<not> expires ?e < 400" by simp
  have h3: "''wrong'' \<noteq> challenge ?e" by simp
  have h4: "\<not> expires ?e < 900" by simp
  note inst = verifyPKCE_failure_keeps_entry [of ?st "''k1''" ?e 400 "''wrong''" 900]
  from inst h1 h2 h3 have a: "verifyPKCE ?st 400 ''k1'' ''wrong'' = (None, ?st)"
    by blast
  from inst h1 h2 h3 h4
  have b: "verifyPKCE (snd (verifyPKCE ?st 400 ''k1'' ''wrong'')) 900 ''k1'' (challenge ?e)
      = (Some (verifier ?e), ?st(''k1'' := None))"
    by blast
  from a b show ?thesis
    by simp
qed


section \<open>Lookups after an update\<close>

lemma find_map_option:
  "find P (map f xs) = map_option f (find (\<lambda>x. P (f x)) xs)"
  by (induction xs) auto

lemma truthy_provider_key: "truthy (Some (provider_key prov))"
  by (cases prov) (simp_all add: truthy_def)

lemma known_provider_truthy: "known_provider p \<Longrightarrow> truthy (Some p)"
  by (auto simp: known_provider_def truthy_def)

text \<open>The two names the handlers read that are no columns.\<close>

lemma row_property_camel_case:
  "row_property user ''passwordHash'' = None"
  "row_property user ''oauthProvider'' = None"
  by (simp_all add: row_property_def)

lemma findByEmail_Some:
  "findByEmail users em = Some u \<Longrightarrow> email u = em \<and> u \<in> set users"
  unfolding findByEmail_def by (auto simp: find_Some_iff)

lemma findById_Some:
  "findById users uid = Some u \<Longrightarrow> id_user u = uid \<and> u \<in> set users"
  unfolding findById_def by (auto simp: find_Some_iff)

lemma findByOAuthId_Some:
  "findByOAuthId users p oid = Some u \<Longrightarrow>
   oauth_provider u = Some p \<and> oauth_id u = Some oid \<and> u \<in> set users"
  unfolding findByOAuthId_def by (auto simp: find_Some_iff)

lemma findByEmail_updateOAuthInfo:
  "findByEmail (updateOAuthInfo users uid p oid pic now) em =
     map_option (\<lambda>u. if id_user u = uid
               then u\<lparr>oauth_provider := p, oauth_id := oid,
                      picture := (case pic of None \<Rightarrow> picture u | Some x \<Rightarrow> Some x),
                      updated_at := now\<rparr>
               else u) (findByEmail users em)"
proof -
  have "\<And>u. email (if id_user u = uid
               then u\<lparr>oauth_provider := p, oauth_id := oid,
                      picture := (case pic of None \<Rightarrow> picture u | Some x \<Rightarrow> Some x),
                      updated_at := now\<rparr>
               else u) = email u"
    by simp
  then show ?thesis
    unfolding findByEmail_def updateOAuthInfo_def find_map_option by simp
qed

lemma ids_updateOAuthInfo:
  "map id_user (updateOAuthInfo users uid p oid pic now) = map id_user users"
  by (simp add: updateOAuthInfo_def comp_def cong: map_cong)

lemma ids_updateLastLogin: "map id_user (updateLastLogin users uid now) = map id_user users"
  by (simp add: updateLastLogin_def comp_def cong: map_cong)

lemma ids_updatePreferences:
  "map id_user (updatePreferences users uid prefs now) = map id_user users"
  by (simp add: updatePreferences_def comp_def cong: map_cong)

lemma ids_create:
  "create users newId now d = Inr (row, users') \<Longrightarrow>
   map id_user users' = map id_user users @ [newId] \<and> newId \<notin> set (map id_user users)"
  unfolding create_def Let_def by (auto split: if_splits)

text \<open>
  \<open>createOAuthUser\<close> passes no password hash, so its INSERT is refused by the NOT NULL
  column and the table is never extended by it.
\<close>

lemma createOAuthUser_refused:
  "createOAuthUser users newId now em nm p oid pic rl = Inl not_null_error"
  by (simp add: createOAuthUser_def create_def or_null_def truthy_def)


section \<open>The verify callback\<close>

text \<open>
  What the callback does is decided by the profile's email alone: with no email it
  reports the missing email; with the email of a stored user it hands that user (as
  read) to \<open>done\<close> and writes provider, external id and picture onto the user's row;
  with an unknown email it reports the error of the refused INSERT.
\<close>

lemma verify_callback_found:
  assumes "first_value (emails prof) = Some e" "e \<noteq> []" "findByEmail users e = Some u"
  shows "verify_callback prov users newId now prof =
           (Inr u, updateOAuthInfo users (id_user u) (Some (provider_key prov))
                     (Some (profile_id prof))
                     (if truthy (first_value (photos prof)) then first_value (photos prof) else None)
                     now)"
  using assms unfolding verify_callback_def Let_def
  by (simp add: truthy_def row_property_camel_case)

lemma verify_callback_unknown:
  assumes "first_value (emails prof) = Some e" "e \<noteq> []" "findByEmail users e = None"
  shows "verify_callback prov users newId now prof = (Inl not_null_error, users)"
  using assms unfolding verify_callback_def Let_def
  by (simp add: truthy_def createOAuthUser_refused)

lemma verify_callback_Inr:
  assumes "verify_callback prov users newId now prof = (Inr u1, users1)"
  obtains e where "first_value (emails prof) = Some e" "e \<noteq> []"
      "findByEmail users e = Some u1"
      "users1 = updateOAuthInfo users (id_user u1) (Some (provider_key prov))
                 (Some (profile_id prof))
                 (if truthy (first_value (photos prof)) then first_value (photos prof) else None) now"
  using assms unfolding verify_callback_def Let_def
  by (auto simp: truthy_def row_property_camel_case createOAuthUser_refused
      split: option.splits if_splits)

text \<open>
  Claim C1, as stated, fails: Alice's row carries \<open>(google, g-1)\<close>, and a Google login
  of account \<open>g-1\<close> that reports Bob's address is resolved to Bob, the user with that
  email, not to the user found by \<open>(provider, externalId)\<close>.
\<close>

theorem callback_skips_oauth_id_lookup_counterexample:
  "findByOAuthId two_accounts (provider_key Google) (profile_id moved_profile) = Some alice_linked
   \<and> fst (verify_callback Google two_accounts ''u4'' 400 moved_profile) = Inr bob_registered"
  by (simp add: run_defs demo_defs)

text \<open>
  Claim C1 (amended): identity resolution in the callback looks the user up by the
  profile's email only and makes no lookup by \<open>(provider, externalId)\<close>. If a user with
  the profile's email exists, that user is the one returned, whichever user carries the
  \<open>(provider, externalId)\<close> pair; if no user has that email, no stored user is returned,
  even when one carries the pair.
\<close>

theorem callback_resolves_by_email:
  assumes "first_value (emails prof) = Some em" and "em \<noteq> []"
  shows "(\<forall>u. findByEmail users em = Some u \<longrightarrow>
            fst (verify_callback prov users newId now prof) = Inr u)
       \<and> (findByEmail users em = None \<longrightarrow>
            (\<forall>u\<in>set users. fst (verify_callback prov users newId now prof) \<noteq> Inr u))"
proof (intro conjI allI impI ballI)
  fix u
  assume "findByEmail users em = Some u"
  with assms show "fst (verify_callback prov users newId now prof) = Inr u"
    by (simp add: verify_callback_found)
next
  fix u
  assume "findByEmail users em = None"
  with assms show "fst (verify_callback prov users newId now prof) \<noteq> Inr u"
    by (simp add: verify_callback_unknown)
qed

theorem callback_resolves_by_email_witness:
  "findByOAuthId two_accounts (provider_key Google) (profile_id moved_profile) = Some alice_linked
   \<and> findByEmail two_accounts ''bob@example.com'' = Some bob_registered
   \<and> fst (verify_callback Google two_accounts ''u4'' 400 moved_profile) = Inr bob_registered
   \<and> findByEmail two_accounts ''carol@example.com'' = None
   \<and> alice_linked \<in> set two_accounts
   \<and> fst (verify_callback Google two_accounts ''u4'' 400
             (moved_profile\<lparr>emails := [''carol@example.com'']\<rparr>)) \<noteq> Inr alice_linked"
proof -
  have h0: "findByOAuthId two_accounts (provider_key Google) (profile_id moved_profile)
      = Some alice_linked"
    by (simp add: run_defs demo_defs)
  have h1: "first_value (emails moved_profile) = Some ''bob@example.com''"
    by (simp add: first_value_def moved_profile_def)
  have h2: "''bob@example.com'' \<noteq> []" by simp
  have h3: "findByEmail two_accounts ''bob@example.com'' = Some bob_registered"
    by (simp add: run_defs demo_defs)
  have k1: "first_value (emails (moved_profile\<lparr>emails := [''carol@example.com'']\<rparr>))
      = Some ''carol@example.com''"
    by (simp add: first_value_def)
  have k2: "''carol@example.com'' \<noteq> []" by simp
  have k3: "findByEmail two_accounts ''carol@example.com'' = None"
    by (simp add: run_defs demo_defs)
  have k4: "alice_linked \<in> set two_accounts"
    by (simp add: demo_defs)
  from callback_resolves_by_email [OF h1 h2, of two_accounts Google "''u4''" 400] h3
  have a: "fst (verify_callback Google two_accounts ''u4'' 400 moved_profile) = Inr bob_registered"
    by blast
  from callback_resolves_by_email [OF k1 k2, of two_accounts Google "''u4''" 400] k3 k4
  have b: "fst (verify_callback Google two_accounts ''u4'' 400
             (moved_profile\<lparr>emails := [''carol@example.com'']\<rparr>)) \<noteq> Inr alice_linked"
    by blast
  from h0 h3 a k3 k4 b show ?thesis by blast
qed



text \<open>
  The callback hands back a user exactly when the profile's email is the email of a
  stored user.
\<close>

lemma verify_callback_returns_user_iff:
  "(\<exists>u users'. verify_callback prov users newId now prof = (Inr u, users')) \<longleftrightarrow>
   (\<exists>e. first_value (emails prof) = Some e \<and> e \<noteq> [] \<and> findByEmail users e \<noteq> None)"
proof
  assume "\<exists>u users'. verify_callback prov users newId now prof = (Inr u, users')"
  then obtain u users' where "verify_callback prov users newId now prof = (Inr u, users')"
    by blast
  then show "\<exists>e. first_value (emails prof) = Some e \<and> e \<noteq> [] \<and> findByEmail users e \<noteq> None"
    by (cases rule: verify_callback_Inr) auto
next
  assume "\<exists>e. first_value (emails prof) = Some e \<and> e \<noteq> [] \<and> findByEmail users e \<noteq> None"
  then obtain e u where "first_value (emails prof) = Some e" "e \<noteq> []" "findByEmail users e = Some u"
    by auto
  from verify_callback_found [OF this]
  show "\<exists>u users'. verify_callback prov users newId now prof = (Inr u, users')"
    by blast
qed

text \<open>
  Claim C8, as stated, fails on the picture: Carol's row has no provider and already has
  a picture, and the callback replaces that picture by the one in the profile
  (\<open>COALESCE($3, picture)\<close> prefers the new value).
\<close>

theorem callback_overwrites_picture_counterexample:
  "findByEmail [carol] ''carol@example.com'' = Some carol
   \<and> \<not> truthy (oauth_provider carol)
   \<and> picture carol = Some ''old.png''
   \<and> snd (verify_callback Google [carol] ''u8'' 300 carol_profile)
       = [carol\<lparr>oauth_provider := Some ''google'', oauth_id := Some ''g-7'',
                picture := Some ''new.png'', updated_at := 300\<rparr>]"
  by (simp add: run_defs demo_defs)

text \<open>Carol's row arises from the service's own requests.\<close>

lemma carol_reachable:
  "run demo_hash demo_compare None []
     [(''u7'', 100, Register ''carol@example.com'' ''pw123'' ''Carol'' None),
      (''u8'', 200, OAuthCallback Google (carol_profile\<lparr>photos := [''old.png'']\<rparr>)),
      (''u9'', 250, Unlink ''google'' ''u7'')] = [carol]"
  by (simp add: serve_def run_defs demo_defs)

text \<open>
  Claim C8 (amended): when the profile's email matches a user whose \<open>oauth_provider\<close> is
  not set, the callback hands back that user and stores on its row the provider, the
  external id and, whenever the profile carries a picture, that picture (replacing a
  stored one; the stored picture is kept only when the profile has none). The stored
  password hash is left as it was.
\<close>

theorem callback_links_password_account:
  assumes "first_value (emails prof) = Some em" and "em \<noteq> []"
    and "findByEmail users em = Some u"
    and "\<not> truthy (oauth_provider u)"
  shows "fst (verify_callback prov users newId now prof) = Inr u
     \<and> findByEmail (snd (verify_callback prov users newId now prof)) em
         = Some (u\<lparr>oauth_provider := Some (provider_key prov),
                   oauth_id := Some (profile_id prof),
                   picture := (case first_value (photos prof) of
                                 None \<Rightarrow> picture u
                               | Some p \<Rightarrow> if p = [] then picture u else Some p),
                   updated_at := now\<rparr>)
     \<and> map_option password_hash
           (findByEmail (snd (verify_callback prov users newId now prof)) em)
         = Some (password_hash u)"
proof -
  let ?pic = "if truthy (first_value (photos prof)) then first_value (photos prof) else None"
  let ?users' = "updateOAuthInfo users (id_user u) (Some (provider_key prov))
                   (Some (profile_id prof)) ?pic now"
  let ?u' = "u\<lparr>oauth_provider := Some (provider_key prov),
                   oauth_id := Some (profile_id prof),
                   picture := (case first_value (photos prof) of
                                 None \<Rightarrow> picture u
                               | Some p \<Rightarrow> if p = [] then picture u else Some p),
                   updated_at := now\<rparr>"
  from verify_callback_found [OF assms(1) assms(2) assms(3)]
  have run: "verify_callback prov users newId now prof = (Inr u, ?users')" .
  have stored: "findByEmail ?users' em = Some ?u'"
    using assms(3) by (simp add: findByEmail_updateOAuthInfo truthy_def split: option.splits)
  from run stored show ?thesis by simp
qed

theorem callback_links_password_account_witness:
  "fst (verify_callback Google [carol] ''u8'' 300 carol_profile) = Inr carol
   \<and> findByEmail (snd (verify_callback Google [carol] ''u8'' 300 carol_profile)) ''carol@example.com''
       = Some (carol\<lparr>oauth_provider := Some ''google'', oauth_id := Some ''g-7'',
                picture := Some ''new.png'', updated_at := 300\<rparr>)
   \<and> map_option password_hash
        (findByEmail (snd (verify_callback Google [carol] ''u8'' 300 carol_profile))
           ''carol@example.com'')
       = Some (Some ''bcrypt:pw123'')"
proof -
  have h1: "first_value (emails carol_profile) = Some ''carol@example.com''"
    by (simp add: first_value_def carol_profile_def)
  have h2: "''carol@example.com'' \<noteq> []" by simp
  have h3: "findByEmail [carol] ''carol@example.com'' = Some carol"
    by (simp add: findByEmail_def carol_def)
  have h4: "\<not> truthy (oauth_provider carol)"
    by (simp add: truthy_def carol_def)
  note inst = callback_links_password_account [OF h1 h2 h3 h4, of Google "''u8''" 300]
  from inst have a: "fst (verify_callback Google [carol] ''u8'' 300 carol_profile) = Inr carol"
    by blast
  from inst
  have b: "findByEmail (snd (verify_callback Google [carol] ''u8'' 300 carol_profile))
             ''carol@example.com''
         = Some (carol\<lparr>oauth_provider := Some (provider_key Google),
                   oauth_id := Some (profile_id carol_profile),
                   picture := (case first_value (photos carol_profile) of
                                 None \<Rightarrow> picture carol
                               | Some p \<Rightarrow> if p = [] then picture carol else Some p),
                   updated_at := 300\<rparr>)"
    by blast
  from inst
  have c: "map_option password_hash
        (findByEmail (snd (verify_callback Google [carol] ''u8'' 300 carol_profile))
           ''carol@example.com'')
       = Some (password_hash carol)"
    by blast
  from a b c show ?thesis
    by (simp add: carol_profile_def first_value_def carol_def)
qed


section \<open>Password login\<close>




text \<open>
  Claim C9 on the code: Bob registered with a password and has never used OAuth. His
  login with a wrong password is answered with the message for accounts without a
  password, not with \<open>Invalid credentials\<close>, and so is his login with the right
  password: the two kinds of failure the claim tells apart get the same answer.
\<close>

theorem login_wrong_password_answered_as_oauth_only:
  "findByEmail registered_accounts ''bob@example.com'' = Some bob_registered
   \<and> password_hash bob_registered = Some (demo_hash ''hunter2'')
   \<and> demo_compare ''hunter2'' (demo_hash ''hunter2'')
   \<and> \<not> demo_compare ''wrong'' (demo_hash ''hunter2'')
   \<and> login demo_compare None registered_accounts 900 ''bob@example.com'' ''wrong''
       = ((401, ErrorBody ''This account uses OAuth login. Please use Google, GitHub, or Microsoft to sign in.''),
          registered_accounts)
   \<and> login demo_compare None registered_accounts 900 ''bob@example.com'' ''hunter2''
       = ((401, ErrorBody ''This account uses OAuth login. Please use Google, GitHub, or Microsoft to sign in.''),
          registered_accounts)"
  by (simp add: run_defs demo_defs)


section \<open>Session tokens\<close>

lemma jwt_verify_Inr_iff:
  "jwt_verify secret now tok = Inr c \<longleftrightarrow> tok = SignedJwt secret c \<and> now div 1000 < exp_claim c"
  by (cases tok) (auto simp: jwt_verify_def)

text \<open>
  \<open>authenticateToken\<close> never answers \<open>Token expired\<close>: every error of \<open>jwt.verify\<close>
  is an instance of \<open>JsonWebTokenError\<close>, the class tested first. A forged signature is
  answered \<open>Invalid token\<close>.
\<close>

lemma authenticateToken_never_token_expired:
  "authenticateToken env users now t \<noteq> Inl (401, ErrorBody ''Token expired'')"
  unfolding authenticateToken_def jwt_verify_def
  by (auto simp: instanceof_def new_JsonWebTokenError_def new_TokenExpiredError_def
      split: option.splits token.splits sum.splits if_splits)

lemma authenticateToken_bad_signature:
  "signed_with \<noteq> jwt_secret env \<Longrightarrow>
   authenticateToken env users now (Some (SignedJwt signed_with claims))
     = Inl (401, ErrorBody ''Invalid token'')"
  by (simp add: authenticateToken_def token_given_def jwt_verify_def instanceof_def
      new_JsonWebTokenError_def)

text \<open>
  Claim C3 on the code: a token signed by the service at time 0 and presented 24 hours
  later has a valid signature and has expired; \<open>jwt.verify\<close> throws
  \<open>TokenExpiredError\<close>, and \<open>authenticateToken\<close> answers 401 \<open>Invalid token\<close>, the
  answer it gives for a forged token. The error-handling middleware, which compares
  \<open>err.name\<close>, would have answered \<open>Token expired\<close> for the same error.
\<close>

theorem expired_token_reported_invalid:
  "jwt_verify (jwt_secret None) 86400000
      (jwt_sign (jwt_secret None) 0 ''u1'' ''alice@example.com'' ''user'')
     = Inl (new_TokenExpiredError ''jwt expired'')
   \<and> authenticateToken None [alice_oauth] 86400000
      (Some (jwt_sign (jwt_secret None) 0 ''u1'' ''alice@example.com'' ''user''))
     = Inl (401, ErrorBody ''Invalid token'')
   \<and> errorHandler (new_TokenExpiredError ''jwt expired'') = (401, ErrorBody ''Token expired'')"
  by (simp add: run_defs)

text \<open>
  Claim C6, as stated, fails on the claims of the new token: Dave's token says
  \<open>user\<close>, verifies, and the refreshed token says \<open>admin\<close>, the role stored in his
  row.
\<close>

theorem refresh_stale_claims_counterexample:
  "jwt_verify (jwt_secret None) 1000000 dave_old_token
     = Inr \<lparr>userId = ''u9'', email_claim = ''dave@example.com'', role_claim = ''user'',
            iat = 100, exp_claim = 86500\<rparr>
   \<and> refresh None [dave] 1000000 (Some dave_old_token)
     = (200, TokenBody (SignedJwt ''fallback-secret''
          \<lparr>userId = ''u9'', email_claim = ''dave@example.com'', role_claim = ''admin'',
           iat = 1000, exp_claim = 87400\<rparr>))"
  by (simp add: run_defs demo_defs)

text \<open>
  Claim C6 (amended): \<open>refresh\<close> answers 401 \<open>Token required\<close> when the token is
  missing or empty. For a token that is given, it succeeds only if the token verifies
  (valid signature, not expired) and its subject is a stored user; a token that does not
  verify, an expired one included, and a token whose subject is unknown are answered
  401 \<open>Invalid token\<close>. On success the new token carries the same subject and the email
  and role stored for that user at the time of the refresh, issued now and expiring 24
  hours later.
\<close>

theorem refresh_reissues_from_store:
  "(\<not> token_given t \<longrightarrow> refresh env users now t = (401, ErrorBody ''Token required''))
   \<and> (token_given (Some tok) \<longrightarrow>
        (\<forall>err. jwt_verify (jwt_secret env) now tok = Inl err \<longrightarrow>
           refresh env users now (Some tok) = (401, ErrorBody ''Invalid token''))
      \<and> (\<forall>c. tok = SignedJwt (jwt_secret env) c \<and> exp_claim c \<le> now div 1000 \<longrightarrow>
           refresh env users now (Some tok) = (401, ErrorBody ''Invalid token''))
      \<and> (\<forall>c. jwt_verify (jwt_secret env) now tok = Inr c \<and> findById users (userId c) = None \<longrightarrow>
           refresh env users now (Some tok) = (401, ErrorBody ''Invalid token''))
      \<and> (\<forall>c u. jwt_verify (jwt_secret env) now tok = Inr c \<and> findById users (userId c) = Some u \<longrightarrow>
           refresh env users now (Some tok)
             = (200, TokenBody (SignedJwt (jwt_secret env)
                  \<lparr>userId = userId c, email_claim = email u, role_claim = role u,
                   iat = now div 1000, exp_claim = now div 1000 + 86400\<rparr>)))
      \<and> (\<forall>fresh. refresh env users now (Some tok) = (200, TokenBody fresh) \<longrightarrow>
           (\<exists>c. jwt_verify (jwt_secret env) now tok = Inr c)))"
proof (intro conjI impI allI)
  assume "\<not> token_given t"
  then show "refresh env users now t = (401, ErrorBody ''Token required'')"
    by (simp add: refresh_def)
next
  fix err
  assume "token_given (Some tok)" "jwt_verify (jwt_secret env) now tok = Inl err"
  then show "refresh env users now (Some tok) = (401, ErrorBody ''Invalid token'')"
    by (simp add: refresh_def)
next
  fix c
  assume "token_given (Some tok)"
    "tok = SignedJwt (jwt_secret env) c \<and> exp_claim c \<le> now div 1000"
  then show "refresh env users now (Some tok) = (401, ErrorBody ''Invalid token'')"
    by (simp add: refresh_def jwt_verify_def)
next
  fix c
  assume "token_given (Some tok)"
    "jwt_verify (jwt_secret env) now tok = Inr c \<and> findById users (userId c) = None"
  then show "refresh env users now (Some tok) = (401, ErrorBody ''Invalid token'')"
    by (simp add: refresh_def)
next
  fix c u
  assume given: "token_given (Some tok)"
    and ok: "jwt_verify (jwt_secret env) now tok = Inr c \<and> findById users (userId c) = Some u"
  then have "id_user u = userId c"
    using findById_Some [of users "userId c" u] by blast
  with given ok show "refresh env users now (Some tok)
             = (200, TokenBody (SignedJwt (jwt_secret env)
                  \<lparr>userId = userId c, email_claim = email u, role_claim = role u,
                   iat = now div 1000, exp_claim = now div 1000 + 86400\<rparr>))"
    by (simp add: refresh_def jwt_sign_def)
next
  fix fresh
  assume "token_given (Some tok)" "refresh env users now (Some tok) = (200, TokenBody fresh)"
  then show "\<exists>c. jwt_verify (jwt_secret env) now tok = Inr c"
    by (cases "jwt_verify (jwt_secret env) now tok") (simp_all add: refresh_def)
qed

theorem refresh_reissues_from_store_witness:
  "refresh None [dave] 1000000 (Some dave_old_token)
     = (200, TokenBody (SignedJwt ''fallback-secret''
          \<lparr>userId = ''u9'', email_claim = ''dave@example.com'', role_claim = ''admin'',
           iat = 1000, exp_claim = 87400\<rparr>))
   \<and> refresh None [dave] 86500000 (Some dave_old_token) = (401, ErrorBody ''Invalid token'')
   \<and> refresh None [dave] 1000000 (Some (NotAJwt [])) = (401, ErrorBody ''Token required'')"
proof -
  let ?c = "\<lparr>userId = ''u9'', email_claim = ''dave@example.com'', role_claim = ''user'',
            iat = 100, exp_claim = 86500\<rparr>"
  have given: "token_given (Some dave_old_token)"
    by (simp add: token_given_def dave_old_token_def)
  have verified: "jwt_verify (jwt_secret None) 1000000 dave_old_token = Inr ?c"
    by (simp add: jwt_verify_def jwt_secret_def dave_old_token_def)
  have found: "findById [dave] (userId ?c) = Some dave"
    by (simp add: findById_def dave_def)
  have expired: "dave_old_token = SignedJwt (jwt_secret None) ?c
      \<and> exp_claim ?c \<le> 86500000 div 1000"
    by (simp add: jwt_secret_def dave_old_token_def)
  have empty: "\<not> token_given (Some (NotAJwt []))"
    by (simp add: token_given_def)
  from refresh_reissues_from_store [of "Some (NotAJwt [])" None "[dave]" 1000000 dave_old_token]
    given verified found empty
  have a: "refresh None [dave] 1000000 (Some dave_old_token)
             = (200, TokenBody (SignedJwt (jwt_secret None)
                  \<lparr>userId = userId ?c, email_claim = email dave, role_claim = role dave,
                   iat = 1000000 div 1000, exp_claim = 1000000 div 1000 + 86400\<rparr>))"
    and c: "refresh None [dave] 1000000 (Some (NotAJwt [])) = (401, ErrorBody ''Token required'')"
    by blast+
  from refresh_reissues_from_store [of "Some (NotAJwt [])" None "[dave]" 86500000 dave_old_token]
    given expired
  have b: "refresh None [dave] 86500000 (Some dave_old_token) = (401, ErrorBody ''Invalid token'')"
    by blast
  from a b c show ?thesis
    by (simp add: jwt_secret_def dave_def)
qed


section \<open>Every user keeps a credential\<close>


lemma hash_kept_updateLastLogin:
  "every_row_has_hash users \<Longrightarrow> every_row_has_hash (updateLastLogin users uid now)"
  unfolding every_row_has_hash_def updateLastLogin_def list_all_iff by auto









section \<open>One external identity, one user\<close>

lemma map_filter_Nil: "List.map_filter f [] = []"
  by (simp add: List.map_filter_def)

lemma map_filter_Cons:
  "List.map_filter f (x # xs) =
     (case f x of None \<Rightarrow> List.map_filter f xs | Some y \<Rightarrow> y # List.map_filter f xs)"
  by (simp add: List.map_filter_def split: option.splits)

lemma map_filter_snoc:
  "List.map_filter f (xs @ [x]) =
     List.map_filter f xs @ (case f x of None \<Rightarrow> [] | Some y \<Rightarrow> [y])"
  by (simp add: List.map_filter_def split: option.splits)

lemma set_map_filter: "set (List.map_filter f xs) = {y. \<exists>x\<in>set xs. f x = Some y}"
  by (induction xs) (auto simp: map_filter_Nil map_filter_Cons split: option.splits)

lemma map_filter_same_identity:
  "(\<And>x. x \<in> set xs \<Longrightarrow> f (g x) = f x) \<Longrightarrow>
   List.map_filter f (map g xs) = List.map_filter f xs"
  by (induction xs) (auto simp: map_filter_Nil map_filter_Cons split: option.splits)

text \<open>An update that keeps or clears the key of each row keeps the keys distinct.\<close>

lemma distinct_map_filter_cleared:
  assumes "distinct (List.map_filter f xs)"
    and "\<And>x. x \<in> set xs \<Longrightarrow> f (g x) = f x \<or> f (g x) = None"
  shows "distinct (List.map_filter f (map g xs))"
  using assms
proof (induction xs)
  case Nil
  then show ?case by (simp add: map_filter_Nil)
next
  case (Cons x xs)
  have sub: "set (List.map_filter f (map g xs)) \<subseteq> set (List.map_filter f xs)"
    using Cons.prems(2) by (fastforce simp: set_map_filter)
  from Cons.prems(2) have head: "f (g x) = f x \<or> f (g x) = None" by simp
  from Cons have IH: "distinct (List.map_filter f (map g xs))"
    by (auto simp: map_filter_Cons split: option.splits)
  from Cons.prems(1) head sub IH show ?case
    by (auto simp: map_filter_Cons split: option.splits)
qed

text \<open>
  An update that gives key \<open>k\<close> to the rows with id \<open>uid\<close> and leaves the others alone
  keeps the keys distinct, when ids are distinct and \<open>k\<close> was held by no other row.
\<close>

lemma distinct_map_filter_assigned:
  assumes "distinct (List.map_filter f xs)"
    and "distinct (map ident xs)"
    and "\<And>x. x \<in> set xs \<Longrightarrow> f x = Some k \<Longrightarrow> ident x = uid"
    and "\<And>x. ident x = uid \<Longrightarrow> f (g x) = Some k"
    and "\<And>x. ident x \<noteq> uid \<Longrightarrow> g x = x"
  shows "distinct (List.map_filter f (map g xs))"
  using assms(1,2,3)
proof (induction xs)
  case Nil
  then show ?case by (simp add: map_filter_Nil)
next
  case (Cons x xs)
  from Cons have IH: "distinct (List.map_filter f (map g xs))"
    by (auto simp: map_filter_Cons split: option.splits)
  show ?case
  proof (cases "ident x = uid")
    case True
    have others: "ident y \<noteq> uid" if "y \<in> set xs" for y
    proof
      assume "ident y = uid"
      with True that have "ident x \<in> ident ` set xs"
        by (simp add: image_iff) metis
      with Cons.prems(2) show False by simp
    qed
    then have same: "map g xs = xs"
      using assms(5) by (simp add: map_idI)
    from others Cons.prems(3) have "k \<notin> set (List.map_filter f xs)"
      by (auto simp: set_map_filter)
    with True IH same assms(4) [of x] show ?thesis
      by (simp add: map_filter_Cons)
  next
    case False
    then have gx: "g x = x" by (rule assms(5))
    have sub: "set (List.map_filter f (map g xs)) \<subseteq> insert k (set (List.map_filter f xs))"
    proof
      fix y assume "y \<in> set (List.map_filter f (map g xs))"
      then obtain z where z: "z \<in> set xs" "f (g z) = Some y"
        by (auto simp: set_map_filter)
      show "y \<in> insert k (set (List.map_filter f xs))"
      proof (cases "ident z = uid")
        case True
        with assms(4) [of z] z show ?thesis by simp
      next
        case False
        with assms(5) [of z] z show ?thesis by (auto simp: set_map_filter)
      qed
    qed
    from False Cons.prems(3) [of x] have "f x \<noteq> Some k" by auto
    with sub Cons.prems(1) IH gx show ?thesis
      by (auto simp: map_filter_Cons split: option.splits)
  qed
qed

lemma distinct_map_filter_unique_row:
  assumes "distinct (List.map_filter f xs)" "x \<in> set xs" "y \<in> set xs"
    "f x = Some k" "f y = Some k"
  shows "x = y"
  using assms
proof (induction xs)
  case Nil
  then show ?case by simp
next
  case (Cons z zs)
  then show ?case
    by (auto simp: map_filter_Cons set_map_filter split: option.splits)
qed

lemma oauth_identity_other_fields:
  "oauth_identity (u\<lparr>last_login := l\<rparr>) = oauth_identity u"
  "oauth_identity (u\<lparr>preferences := prefs, updated_at := t\<rparr>) = oauth_identity u"
  by (simp_all add: oauth_identity_def split: option.splits)

text \<open>
  \<open>linkOAuthAccount\<close>, the explicit linking path, checks whether the identity is held
  by another user and refuses; when it links, identities stay unique.
\<close>

lemma oauth_unique_updateOAuthInfo_link:
  assumes uniq: "oauth_unique users" and ids: "distinct (map id_user users)"
    and free: "\<And>u. u \<in> set users \<Longrightarrow> oauth_identity u = Some (p, oid) \<Longrightarrow> id_user u = uid"
  shows "oauth_unique (updateOAuthInfo users uid (Some p) (Some oid) pic now)"
  unfolding oauth_unique_def oauth_identities_def updateOAuthInfo_def
proof (rule distinct_map_filter_assigned [where ident = id_user and uid = uid and k = "(p, oid)"])
  show "distinct (List.map_filter oauth_identity users)"
    using uniq by (simp add: oauth_unique_def oauth_identities_def)
  show "distinct (map id_user users)" by (rule ids)
qed (auto simp: oauth_identity_def free)

lemma oauth_unique_linkOAuthAccount:
  assumes "oauth_unique users" and "distinct (map id_user users)"
    and "linkOAuthAccount users uid p oid pic now = Inr users'"
  shows "oauth_unique users'"
proof (cases "findByOAuthId users p oid")
  case None
  then have free: "\<And>u. u \<in> set users \<Longrightarrow> oauth_identity u = Some (p, oid) \<Longrightarrow> id_user u = uid"
    unfolding findByOAuthId_def oauth_identity_def
    by (auto simp: find_None_iff split: option.splits)
  from None assms(3) have "users' = updateOAuthInfo users uid (Some p) (Some oid) pic now"
    by (simp add: linkOAuthAccount_def)
  with assms(1,2) free show ?thesis
    by (simp add: oauth_unique_updateOAuthInfo_link)
next
  case (Some existingUser)
  with assms(3) have same: "id_user existingUser = uid"
    and upd: "users' = updateOAuthInfo users uid (Some p) (Some oid) pic now"
    by (auto simp: linkOAuthAccount_def split: if_splits)
  from Some have ex: "existingUser \<in> set users" "oauth_identity existingUser = Some (p, oid)"
    using findByOAuthId_Some [of users p oid existingUser] by (simp_all add: oauth_identity_def)
  have free: "\<And>u. u \<in> set users \<Longrightarrow> oauth_identity u = Some (p, oid) \<Longrightarrow> id_user u = uid"
  proof -
    fix u assume "u \<in> set users" "oauth_identity u = Some (p, oid)"
    with ex assms(1) have "u = existingUser"
      unfolding oauth_unique_def oauth_identities_def
      by (metis distinct_map_filter_unique_row)
    with same show "id_user u = uid" by simp
  qed
  with assms(1,2) upd show ?thesis
    by (simp add: oauth_unique_updateOAuthInfo_link)
qed

lemma oauth_unique_updateLastLogin:
  "oauth_unique users \<Longrightarrow> oauth_unique (updateLastLogin users uid now)"
  unfolding oauth_unique_def oauth_identities_def updateLastLogin_def
  by (erule distinct_map_filter_cleared) (simp add: oauth_identity_other_fields)

lemma oauth_unique_updatePreferences:
  "oauth_unique users \<Longrightarrow> oauth_unique (updatePreferences users uid prefs now)"
  unfolding oauth_unique_def oauth_identities_def updatePreferences_def
  by (erule distinct_map_filter_cleared) (simp add: oauth_identity_other_fields)

lemma oauth_unique_unlink:
  "oauth_unique users \<Longrightarrow> oauth_unique (updateOAuthInfo users uid None None pic now)"
  unfolding oauth_unique_def oauth_identities_def updateOAuthInfo_def
  by (erule distinct_map_filter_cleared) (simp add: oauth_identity_def)

lemma oauth_unique_register:
  "oauth_unique users \<Longrightarrow>
   oauth_unique (snd (register bcrypt_hash env users newId now em password nm rl))"
  unfolding register_def create_def Let_def
  by (auto simp: oauth_unique_def oauth_identities_def map_filter_snoc oauth_identity_def
      or_null_def truthy_def split: option.splits)

lemma oauth_unique_login:
  "oauth_unique users \<Longrightarrow> oauth_unique (snd (login bcrypt_compare env users now em password))"
  unfolding login_def by (auto simp: oauth_unique_updateLastLogin split: option.splits)

lemma oauth_unique_put_profile:
  "oauth_unique users \<Longrightarrow> oauth_unique (snd (put_profile env users now t prefs))"
  unfolding put_profile_def
  by (auto simp: oauth_unique_updatePreferences split: option.splits sum.splits)

lemma oauth_unique_unlink_route:
  "oauth_unique users \<Longrightarrow> oauth_unique (snd (unlink_route users now p uid))"
  unfolding unlink_route_def by (auto simp: oauth_unique_unlink split: option.splits)

lemma oauth_unique_link_route:
  assumes "oauth_unique users" and "distinct (map id_user users)"
  shows "oauth_unique (snd (link_route users now p uid oid))"
proof (cases "linkOAuthAccount users uid p oid None now")
  case (Inl err)
  with assms(1) show ?thesis
    unfolding link_route_def by (auto split: option.splits bool.splits)
next
  case (Inr users')
  with assms have "oauth_unique users'"
    by (rule oauth_unique_linkOAuthAccount)
  with Inr assms(1) show ?thesis
    unfolding link_route_def by (auto split: option.splits bool.splits)
qed

text \<open>
  Every request other than a provider callback keeps the identities unique (on a table
  with distinct ids, which every request keeps).
\<close>

lemma other_requests_keep_oauth_unique:
  assumes "oauth_unique users" and "distinct (map id_user users)"
    and "\<forall>prov prof. req \<noteq> OAuthCallback prov prof"
  shows "oauth_unique (serve bcrypt_hash bcrypt_compare env users newId now req)"
  using assms
  by (cases req)
    (simp_all add: serve_def oauth_unique_register oauth_unique_login oauth_unique_link_route
      oauth_unique_unlink_route oauth_unique_put_profile)

lemma serve_keeps_ids_distinct:
  assumes "distinct (map id_user users)"
  shows "distinct (map id_user (serve bcrypt_hash bcrypt_compare env users newId now req))"
proof (cases req)
  case (Register em password nm rl)
  with assms show ?thesis
    unfolding serve_def register_def
    by (auto split: option.splits sum.splits dest!: ids_create)
next
  case (Login em password)
  with assms show ?thesis
    unfolding serve_def login_def by (auto simp: ids_updateLastLogin split: option.splits)
next
  case (OAuthCallback prov prof)
  with assms show ?thesis
    unfolding serve_def verify_callback_def createOAuthUser_def Let_def
    by (auto simp: ids_updateOAuthInfo split: option.splits sum.splits dest!: ids_create)
next
  case (Link p uid oid)
  with assms show ?thesis
    unfolding serve_def link_route_def linkOAuthAccount_def
    by (auto simp: ids_updateOAuthInfo split: option.splits bool.splits if_splits)
next
  case (Unlink p uid)
  with assms show ?thesis
    unfolding serve_def unlink_route_def by (auto simp: ids_updateOAuthInfo split: option.splits)
next
  case (PutProfile t prefs)
  with assms show ?thesis
    unfolding serve_def put_profile_def
    by (auto simp: ids_updatePreferences split: option.splits sum.splits)
qed

text \<open>The tables of the examples arise from the service's own requests.\<close>

lemma registered_accounts_reachable:
  "run demo_hash demo_compare None [] (take 2 two_accounts_steps) = registered_accounts"
  by (simp add: serve_def run_defs demo_defs)

lemma two_accounts_reachable:
  "run demo_hash demo_compare None [] two_accounts_steps = two_accounts"
  by (simp add: serve_def run_defs demo_defs)

text \<open>
  Claim C2 on the code: Alice's row holds \<open>(google, g-1)\<close> and Bob's row holds no
  identity, so identities are unique. A Google login of account \<open>g-1\<close> that now reports
  Bob's address finds Bob by email and writes \<open>(google, g-1)\<close> onto his row with no
  check against Alice's: afterwards two users carry the same pair.
\<close>

theorem callback_attaches_identity_twice:
  "oauth_unique two_accounts
   \<and> map oauth_identity two_accounts = [Some (''google'', ''g-1''), None]
   \<and> map id_user (snd (verify_callback Google two_accounts ''u4'' 400 moved_profile))
       = [''u1'', ''u2'']
   \<and> map oauth_identity (snd (verify_callback Google two_accounts ''u4'' 400 moved_profile))
       = [Some (''google'', ''g-1''), Some (''google'', ''g-1'')]
   \<and> \<not> oauth_unique (snd (verify_callback Google two_accounts ''u4'' 400 moved_profile))"
  by (simp add: run_defs demo_defs oauth_unique_def oauth_identities_def oauth_identity_def
      List.map_filter_def)

end
